theory Spec2Isabelle
  imports Complex_Main
begin

section \<open>Data of the canvas selection helper\<close>

text \<open>
  The model follows \<^verbatim>\<open>src/app/canvas/SelectionHelper.ts\<close>. Numbers that index
  sub-paths and commands are integers; mouse coordinates, projection parameters, slider
  values and frame timestamps are reals. The \<^verbatim>\<open>actionSource\<close> that every action and
  hover carries is a constant of the component and is left out of the model.
\<close>

datatype Point = Point (px: real) (py: real)

text \<open>The object types \<^verbatim>\<open>{ subIdx }\<close> and \<^verbatim>\<open>{ subIdx, cmdIdx }\<close> of the hit lists.\<close>

record SubHit =
  subIdx :: int

record Hit = SubHit +
  cmdIdx :: int

text \<open>
  \<^verbatim>\<open>Command\<close> and \<^verbatim>\<open>SubPath\<close> belong to the path library; the helper only calls
  \<^verbatim>\<open>isSplitPoint()\<close>, \<^verbatim>\<open>isSplitSegment()\<close> and \<^verbatim>\<open>isSplit()\<close> on them.
\<close>

record Command =
  isSplitPoint :: bool
  isSplitSegment :: bool

record SubPath =
  isSplit :: bool

text \<open>The objects built by the \<^verbatim>\<open>hits.map(...)\<close> calls of the three finders.\<close>

record SubPathInfo = SubHit +
  subPath :: SubPath

record CmdInfo = Hit +
  cmd :: Command

text \<open>Of a projection only its parameter \<^verbatim>\<open>t\<close> is read.\<close>

datatype Projection = Projection (proj_t: real)

record ProjectionOntoPath = Hit +
  projection :: Projection

record HitResult =
  isHit :: bool
  isEndPointHit :: bool
  isSegmentHit :: bool
  isShapeHit :: bool
  endPointHits :: "Hit list"
  segmentHits :: "Hit list"
  shapeHits :: "SubHit list"

datatype HoverType = HoverPoint | HoverSegment | HoverSubPath

datatype Hover = Hover (hoverType: HoverType) (hoverSubIdx: int) (hoverCmdIdx: "int option")

datatype 'p Action =
    SetSelections "Hit list"
  | TogglePointSelection int int bool
  | ToggleSegmentSelections "Hit list"
  | ToggleSubPathSelection int
  | UpdateActivePathBlock 'p

text \<open>
  What the helper does to its collaborators, in the order it does it: a dispatch to the
  store, a call of \<^verbatim>\<open>hoverService.setHover\<close>, a call of \<^verbatim>\<open>component.draw\<close>.
\<close>

datatype 'p Effect =
    Dispatch "'p Action"
  | SetHover "Hover option"
  | Draw

text \<open>
  The component the helper is built on, with the path library and the utilities it
  reaches through it. None of this code is part of the file, so each operation is a
  parameter. \<^typ>\<open>'p\<close> is the type of path data, \<^typ>\<open>'m\<close> the type of path mutators.
  The queries on \<^verbatim>\<open>component.activePath\<close> and the hit test take the current path data
  of the active layer, because \<^verbatim>\<open>onMouseUp\<close> assigns \<^verbatim>\<open>activeLayer.pathData\<close> before
  it projects again. \<^verbatim>\<open>transformPoint\<close> stands for
  \<^verbatim>\<open>MathUtil.transformPoint(p, getFlattenedTransformForLayer(...).invert())\<close>.
\<close>

record ('p, 'm) Component =
  performHitTest :: "'p \<Rightarrow> Point \<Rightarrow> HitResult"
  isFilled :: bool
  isStroked :: bool
  dragTriggerTouchSlop :: real
  distance :: "Point \<Rightarrow> Point \<Rightarrow> real"
  transformPoint :: "Point \<Rightarrow> Point"
  getSubPath :: "'p \<Rightarrow> int \<Rightarrow> SubPath"
  getCommand :: "'p \<Rightarrow> int \<Rightarrow> int \<Rightarrow> Command"
  project :: "'p \<Rightarrow> Point \<Rightarrow> int option \<Rightarrow> ProjectionOntoPath option"
  mutate :: "'p \<Rightarrow> 'm"
  splitCommand :: "'m \<Rightarrow> int \<Rightarrow> int \<Rightarrow> real \<Rightarrow> 'm"
  unsplitCommand :: "'m \<Rightarrow> int \<Rightarrow> int \<Rightarrow> 'm"
  build :: "'m \<Rightarrow> 'p"

text \<open>
  The helper's five fields, the path data of the active layer, and the log of effects.
  A field that holds \<^verbatim>\<open>undefined\<close> is \<^term>\<open>None\<close>. The field \<^verbatim>\<open>isDragTriggered_\<close> is
  called \<open>isDragTriggeredFlag\<close>, since a name may not end in an underscore here.
\<close>

record 'p State =
  currentDraggableSplitIndex :: "Hit option"
  projectionOntoPath :: "ProjectionOntoPath option"
  isDragTriggeredFlag :: bool
  lastKnownMouseLocation :: "Point option"
  initialMouseDown :: "Point option"
  pathData :: 'p
  effects :: "'p Effect list"

text \<open>A handler returns or throws a \<^verbatim>\<open>TypeError\<close>; the state it leaves is kept either way.\<close>

datatype TypeError =
    HitInfoUndefined
  | DraggableSplitIndexUndefined
  | ProjectionUndefined
  | InitialMouseDownUndefined

datatype Outcome = Returned | Threw TypeError

definition newHelper :: "'p \<Rightarrow> 'p State" where
  "newHelper p =
     \<lparr>currentDraggableSplitIndex = None, projectionOntoPath = None, isDragTriggeredFlag = False,
      lastKnownMouseLocation = None, initialMouseDown = None, pathData = p, effects = []\<rparr>"

definition dispatch :: "'p Action \<Rightarrow> 'p State \<Rightarrow> 'p State" where
  "dispatch a s = s\<lparr>effects := effects s @ [Dispatch a]\<rparr>"

definition setHover :: "Hover option \<Rightarrow> 'p State \<Rightarrow> 'p State" where
  "setHover h s = s\<lparr>effects := effects s @ [SetHover h]\<rparr>"

definition draw :: "'p State \<Rightarrow> 'p State" where
  "draw s = s\<lparr>effects := effects s @ [Draw]\<rparr>"

fun dispatchedOf :: "'p Effect list \<Rightarrow> 'p Action list" where
  "dispatchedOf [] = []"
| "dispatchedOf (Dispatch a # es) = a # dispatchedOf es"
| "dispatchedOf (e # es) = dispatchedOf es"

fun hoversOf :: "'p Effect list \<Rightarrow> Hover option list" where
  "hoversOf [] = []"
| "hoversOf (SetHover h # es) = h # hoversOf es"
| "hoversOf (e # es) = hoversOf es"

definition dispatched :: "'p State \<Rightarrow> 'p Action list" where
  "dispatched s = dispatchedOf (effects s)"

definition hoverUpdates :: "'p State \<Rightarrow> Hover option list" where
  "hoverUpdates s = hoversOf (effects s)"

definition andThen ::
  "Outcome \<times> 'p State \<Rightarrow> ('p State \<Rightarrow> Outcome \<times> 'p State) \<Rightarrow> Outcome \<times> 'p State" where
  "andThen r f = (case r of (Returned, s) \<Rightarrow> f s | (Threw e, s) \<Rightarrow> (Threw e, s))"

section \<open>Hit disambiguation\<close>

text \<open>
  \<^verbatim>\<open>_.findLastIndex(array, predicate)\<close> of lodash: the index of the last element that
  satisfies the predicate, \<open>-1\<close> when there is none.
\<close>

fun findLastIndex :: "'a list \<Rightarrow> ('a \<Rightarrow> bool) \<Rightarrow> int" where
  "findLastIndex [] P = -1"
| "findLastIndex (x # xs) P =
     (let i = findLastIndex xs P in if 0 \<le> i then i + 1 else if P x then 0 else -1)"

text \<open>Reading \<^verbatim>\<open>array[i]\<close>: \<^verbatim>\<open>undefined\<close> outside the array.\<close>

definition arrayGet :: "'a list \<Rightarrow> int \<Rightarrow> 'a option" where
  "arrayGet xs i = (if 0 \<le> i \<and> i < int (length xs) then Some (xs ! nat i) else None)"

text \<open>The two functions that the finders map over their hit lists.\<close>

definition subPathInfo :: "('p, 'm) Component \<Rightarrow> 'p \<Rightarrow> 'a SubHit_scheme \<Rightarrow> SubPathInfo" where
  "subPathInfo c p index = \<lparr>subIdx = subIdx index, subPath = getSubPath c p (subIdx index)\<rparr>"

definition cmdInfo :: "('p, 'm) Component \<Rightarrow> 'p \<Rightarrow> Hit \<Rightarrow> CmdInfo" where
  "cmdInfo c p index =
     \<lparr>subIdx = subIdx index, cmdIdx = cmdIdx index,
      cmd = getCommand c p (subIdx index) (cmdIdx index)\<rparr>"

definition findHitSubPath ::
  "('p, 'm) Component \<Rightarrow> 'p \<Rightarrow> 'a SubHit_scheme list \<Rightarrow> SubPathInfo option" where
  "findHitSubPath c p hits =
     (let infos = map (subPathInfo c p) hits;
          lastSplitIndex = findLastIndex infos (\<lambda>info. isSplit (subPath info))
      in arrayGet infos (if lastSplitIndex < 0 then int (length infos) - 1 else lastSplitIndex))"

definition findHitSegment ::
  "('p, 'm) Component \<Rightarrow> 'p \<Rightarrow> Hit list \<Rightarrow> CmdInfo option" where
  "findHitSegment c p hits =
     (let infos = map (cmdInfo c p) hits;
          lastSplitIndex = findLastIndex infos (\<lambda>info. isSplitSegment (cmd info))
      in arrayGet infos (if lastSplitIndex < 0 then int (length infos) - 1 else lastSplitIndex))"

definition findHitPoint ::
  "('p, 'm) Component \<Rightarrow> 'p \<Rightarrow> Hit list \<Rightarrow> CmdInfo option" where
  "findHitPoint c p hits =
     (let infos = map (cmdInfo c p) hits;
          lastSplitIndex = findLastIndex infos (\<lambda>info. isSplitPoint (cmd info))
      in arrayGet infos (if lastSplitIndex < 0 then int (length infos) - 1 else lastSplitIndex))"

section \<open>The mouse handlers\<close>

definition reset :: "'p State \<Rightarrow> 'p State" where
  "reset s =
     s\<lparr>initialMouseDown := None, projectionOntoPath := None,
       currentDraggableSplitIndex := None, isDragTriggeredFlag := False,
       lastKnownMouseLocation := None\<rparr>"

definition isDragTriggered :: "'p State \<Rightarrow> bool" where
  "isDragTriggered s = isDragTriggeredFlag s"

definition getDraggableSplitIndex :: "'p State \<Rightarrow> Hit option" where
  "getDraggableSplitIndex s = currentDraggableSplitIndex s"

definition getProjectionOntoPath :: "'p State \<Rightarrow> ProjectionOntoPath option" where
  "getProjectionOntoPath s = projectionOntoPath s"

definition getLastKnownMouseLocation :: "'p State \<Rightarrow> Point option" where
  "getLastKnownMouseLocation s = lastKnownMouseLocation s"

definition calculateProjectionOntoPath ::
  "('p, 'm) Component \<Rightarrow> 'p \<Rightarrow> Point \<Rightarrow> int option \<Rightarrow> ProjectionOntoPath option" where
  "calculateProjectionOntoPath c p mousePoint restrictToSubIdx =
     (let transformedMousePoint = transformPoint c mousePoint in
      case project c p transformedMousePoint restrictToSubIdx of
        None \<Rightarrow> None
      | Some projInfo \<Rightarrow>
          Some \<lparr>subIdx = subIdx projInfo, cmdIdx = cmdIdx projInfo,
                projection = projection projInfo\<rparr>)"

text \<open>
  Destructuring the result of a finder throws when the finder returned \<^verbatim>\<open>undefined\<close>
  (an empty hit list).
\<close>

definition hoverOnShape :: "('p, 'm) Component \<Rightarrow> HitResult \<Rightarrow> 'p State \<Rightarrow> Outcome \<times> 'p State" where
  "hoverOnShape c hitResult s =
     (if isShapeHit hitResult \<and> isFilled c then
        (case findHitSubPath c (pathData s) (shapeHits hitResult) of
           None \<Rightarrow> (Threw HitInfoUndefined, s)
         | Some info \<Rightarrow> (Returned, setHover (Some (Hover HoverSubPath (subIdx info) None)) s))
      else (Returned, s))"

definition checkForHovers :: "('p, 'm) Component \<Rightarrow> Point \<Rightarrow> 'p State \<Rightarrow> Outcome \<times> 'p State" where
  "checkForHovers c mousePoint s =
     (if currentDraggableSplitIndex s \<noteq> None then (Returned, s)
      else
        let hitResult = performHitTest c (pathData s) mousePoint in
        if \<not> isHit hitResult then (Returned, setHover None s)
        else if isEndPointHit hitResult then
          (case findHitPoint c (pathData s) (endPointHits hitResult) of
             None \<Rightarrow> (Threw HitInfoUndefined, s)
           | Some info \<Rightarrow>
               (Returned, setHover (Some (Hover HoverPoint (subIdx info) (Some (cmdIdx info)))) s))
        else if isSegmentHit hitResult then
          (if isFilled c then
             (case findHitSegment c (pathData s) (segmentHits hitResult) of
                None \<Rightarrow> (Threw HitInfoUndefined, s)
              | Some info \<Rightarrow>
                  if isSplitSegment (getCommand c (pathData s) (subIdx info) (cmdIdx info)) then
                    (Returned,
                     setHover (Some (Hover HoverSegment (subIdx info) (Some (cmdIdx info)))) s)
                  else hoverOnShape c hitResult s)
           else if isStroked c then
             (case findHitSegment c (pathData s) (segmentHits hitResult) of
                None \<Rightarrow> (Threw HitInfoUndefined, s)
              | Some info \<Rightarrow>
                  (Returned, setHover (Some (Hover HoverSubPath (subIdx info) None)) s))
           else hoverOnShape c hitResult s)
        else hoverOnShape c hitResult s)"

text \<open>
  Lines 67 to 76 of \<^verbatim>\<open>onMouseDown\<close>. They are reached from two places, since a hit on a
  segment that is not a split segment falls through to them.
\<close>

definition selectSubPathOrClear ::
  "('p, 'm) Component \<Rightarrow> HitResult \<Rightarrow> bool \<Rightarrow> 'p State \<Rightarrow> Outcome \<times> 'p State" where
  "selectSubPathOrClear c hitResult isShiftOrMetaPressed s =
     (if isSegmentHit hitResult \<or> isShapeHit hitResult then
        (case (if isShapeHit hitResult
               then findHitSubPath c (pathData s) (shapeHits hitResult)
               else findHitSubPath c (pathData s) (segmentHits hitResult)) of
           None \<Rightarrow> (Threw HitInfoUndefined, s)
         | Some info \<Rightarrow> (Returned, dispatch (ToggleSubPathSelection (subIdx info)) s))
      else if \<not> isShiftOrMetaPressed then (Returned, dispatch (SetSelections []) s)
      else (Returned, s))"

definition onMouseDown ::
  "('p, 'm) Component \<Rightarrow> Point \<Rightarrow> bool \<Rightarrow> 'p State \<Rightarrow> Outcome \<times> 'p State" where
  "onMouseDown c mouseDown isShiftOrMetaPressed s0 =
     (let s = s0\<lparr>initialMouseDown := Some mouseDown, lastKnownMouseLocation := Some mouseDown\<rparr>;
          hitResult = performHitTest c (pathData s) mouseDown
      in
      if isEndPointHit hitResult then
        (case findHitPoint c (pathData s) (endPointHits hitResult) of
           None \<Rightarrow> (Threw HitInfoUndefined, s)
         | Some info \<Rightarrow>
             if isSplitPoint (cmd info) then
               (Returned,
                s\<lparr>currentDraggableSplitIndex :=
                    Some \<lparr>subIdx = subIdx info, cmdIdx = cmdIdx info\<rparr>\<rparr>)
             else
               (Returned,
                dispatch (TogglePointSelection (subIdx info) (cmdIdx info) isShiftOrMetaPressed) s))
      else if isFilled c \<and> isSegmentHit hitResult then
        (case findHitSegment c (pathData s) (segmentHits hitResult) of
           None \<Rightarrow> (Threw HitInfoUndefined, s)
         | Some info \<Rightarrow>
             if isSplitSegment (cmd info) then
               (Returned,
                dispatch (ToggleSegmentSelections
                            [\<lparr>subIdx = subIdx info, cmdIdx = cmdIdx info\<rparr>]) s)
             else selectSubPathOrClear c hitResult isShiftOrMetaPressed s)
      else selectSubPathOrClear c hitResult isShiftOrMetaPressed s)"

text \<open>
  Lines 81 to 86. \<^verbatim>\<open>MathUtil.distance\<close> reads the coordinates of both points, so the
  call throws when \<^verbatim>\<open>initialMouseDown\<close> is \<^verbatim>\<open>undefined\<close>.
\<close>

definition checkDragTrigger ::
  "('p, 'm) Component \<Rightarrow> Point \<Rightarrow> 'p State \<Rightarrow> Outcome \<times> 'p State" where
  "checkDragTrigger c mouseMove s =
     (if currentDraggableSplitIndex s \<noteq> None then
        (case initialMouseDown s of
           None \<Rightarrow> (Threw InitialMouseDownUndefined, s)
         | Some down \<Rightarrow>
             if dragTriggerTouchSlop c < distance c down mouseMove
             then (Returned, s\<lparr>isDragTriggeredFlag := True\<rparr>)
             else (Returned, s))
      else (Returned, s))"

definition onMouseMove ::
  "('p, 'm) Component \<Rightarrow> Point \<Rightarrow> 'p State \<Rightarrow> Outcome \<times> 'p State" where
  "onMouseMove c mouseMove s0 =
     andThen (checkDragTrigger c mouseMove (s0\<lparr>lastKnownMouseLocation := Some mouseMove\<rparr>))
       (\<lambda>s. andThen
          (if isDragTriggeredFlag s then
             (case currentDraggableSplitIndex s of
                None \<Rightarrow> (Threw DraggableSplitIndexUndefined, s)
              | Some index \<Rightarrow>
                  (Returned,
                   s\<lparr>projectionOntoPath :=
                       calculateProjectionOntoPath c (pathData s) mouseMove (Some (subIdx index))\<rparr>))
           else checkForHovers c mouseMove s)
          (\<lambda>s'. (Returned, draw s')))"

text \<open>
  Lines 111 to 132 of \<^verbatim>\<open>onMouseUp\<close>: the mutator that is built at the end, and the
  assignment to \<^verbatim>\<open>activeLayer.pathData\<close> in the branch of equal command indices.
\<close>

definition moveSplitPoint ::
  "('p, 'm) Component \<Rightarrow> Point \<Rightarrow> ProjectionOntoPath \<Rightarrow> Hit \<Rightarrow> 'p State
     \<Rightarrow> (TypeError + 'm) \<times> 'p State" where
  "moveSplitPoint c mouseUp projOntoPath index s =
     (let newSubIdx = subIdx projOntoPath; newCmdIdx = cmdIdx projOntoPath;
          oldSubIdx = subIdx index; oldCmdIdx = cmdIdx index;
          startingPath = pathData s;
          pathMutator = mutate c startingPath
      in
      if newCmdIdx > oldCmdIdx then
        (Inr (unsplitCommand c
                (splitCommand c pathMutator newSubIdx newCmdIdx (proj_t (projection projOntoPath)))
                oldSubIdx oldCmdIdx), s)
      else if newCmdIdx < oldCmdIdx then
        (Inr (splitCommand c
                (unsplitCommand c pathMutator oldSubIdx oldCmdIdx)
                newSubIdx newCmdIdx (proj_t (projection projOntoPath))), s)
      else
        let unsplit = unsplitCommand c pathMutator oldSubIdx oldCmdIdx;
            s1 = s\<lparr>pathData := build c unsplit\<rparr>
        in
        case calculateProjectionOntoPath c (pathData s1) mouseUp None of
          None \<Rightarrow> (Inl ProjectionUndefined, s1)
        | Some tempProjOntoPath \<Rightarrow>
            if oldSubIdx = subIdx tempProjOntoPath then
              (Inr (splitCommand c unsplit (subIdx tempProjOntoPath) (cmdIdx tempProjOntoPath)
                      (proj_t (projection tempProjOntoPath))), s1)
            else (Inr (mutate c startingPath), s1))"

text \<open>Lines 100 to 143: the end of a triggered drag.\<close>

definition endDrag ::
  "('p, 'm) Component \<Rightarrow> Point \<Rightarrow> 'p State \<Rightarrow> Outcome \<times> 'p State" where
  "endDrag c mouseUp s =
     (case projectionOntoPath s of
        None \<Rightarrow> (Threw ProjectionUndefined, s)
      | Some projOntoPath \<Rightarrow>
          (case currentDraggableSplitIndex s of
             None \<Rightarrow> (Threw DraggableSplitIndexUndefined, s)
           | Some index \<Rightarrow>
               if subIdx projOntoPath = subIdx index then
                 (case moveSplitPoint c mouseUp projOntoPath index s of
                    (Inl e, s1) \<Rightarrow> (Threw e, s1)
                  | (Inr pathMutator, s1) \<Rightarrow>
                      (Returned,
                       dispatch (UpdateActivePathBlock (build c pathMutator))
                         (reset (dispatch (SetSelections []) (setHover None s1)))))
               else (Returned, s)))"

text \<open>Lines 145 to 156: a mouse up on a split point that was pressed and not dragged.\<close>

definition selectOnMouseUp ::
  "('p, 'm) Component \<Rightarrow> Point \<Rightarrow> bool \<Rightarrow> 'p State \<Rightarrow> Outcome \<times> 'p State" where
  "selectOnMouseUp c mouseUp isShiftOrMetaPressed s =
     (let hitResult = performHitTest c (pathData s) mouseUp in
      if \<not> isHit hitResult then (Returned, dispatch (SetSelections []) s)
      else if isEndPointHit hitResult then
        (case findHitPoint c (pathData s) (endPointHits hitResult) of
           None \<Rightarrow> (Threw HitInfoUndefined, s)
         | Some info \<Rightarrow>
             (Returned,
              dispatch (TogglePointSelection (subIdx info) (cmdIdx info) isShiftOrMetaPressed) s))
      else if isSegmentHit hitResult \<or> isShapeHit hitResult then
        (case (if isShapeHit hitResult
               then findHitSubPath c (pathData s) (shapeHits hitResult)
               else findHitSubPath c (pathData s) (segmentHits hitResult)) of
           None \<Rightarrow> (Threw HitInfoUndefined, s)
         | Some info \<Rightarrow> (Returned, dispatch (ToggleSubPathSelection (subIdx info)) s))
      else (Returned, s))"

definition onMouseUp ::
  "('p, 'm) Component \<Rightarrow> Point \<Rightarrow> bool \<Rightarrow> 'p State \<Rightarrow> Outcome \<times> 'p State" where
  "onMouseUp c mouseUp isShiftOrMetaPressed s0 =
     (let s = s0\<lparr>lastKnownMouseLocation := Some mouseUp\<rparr> in
      andThen
        (if isDragTriggeredFlag s then endDrag c mouseUp s
         else if currentDraggableSplitIndex s \<noteq> None
           then selectOnMouseUp c mouseUp isShiftOrMetaPressed s
         else (Returned, s))
        (\<lambda>s1. andThen (checkForHovers c mouseUp (reset s1))
                (\<lambda>s2. (Returned, draw s2))))"

definition onMouseLeave :: "Point \<Rightarrow> 'p State \<Rightarrow> Outcome \<times> 'p State" where
  "onMouseLeave mouseLeave s0 =
     (Returned,
      draw (setHover None (reset (s0\<lparr>lastKnownMouseLocation := Some mouseLeave\<rparr>))))"

section \<open>The timeline component\<close>

definition maxAnimationFractionSliderValue :: real where
  "maxAnimationFractionSliderValue = 1000"

definition animationDuration :: real where
  "animationDuration = 1000"

text \<open>The values the two event emitters have emitted, oldest first.\<close>

record Timeline =
  labelPointsChangedEmitter :: "bool list"
  animationFractionChangedEmitter :: "real list"

definition onAnimationFractionSliderChanged :: "real \<Rightarrow> Timeline \<Rightarrow> Timeline" where
  "onAnimationFractionSliderChanged sliderValue tm =
     tm\<lparr>animationFractionChangedEmitter :=
          animationFractionChangedEmitter tm @ [sliderValue / maxAnimationFractionSliderValue]\<rparr>"

definition onLabelPointsCheckboxChanged :: "bool \<Rightarrow> Timeline \<Rightarrow> Timeline" where
  "onLabelPointsCheckboxChanged shouldLabelPoints tm =
     tm\<lparr>labelPointsChangedEmitter := labelPointsChangedEmitter tm @ [shouldLabelPoints]\<rparr>"

text \<open>
  One run of \<^verbatim>\<open>onPlayClick\<close>: the variable \<^verbatim>\<open>startTimestamp\<close> of the closure, whether
  a frame is requested, and the component. \<^verbatim>\<open>!startTimestamp\<close> holds for \<^verbatim>\<open>null\<close> and
  for the number 0.
\<close>

record Play =
  startTimestamp :: "real option"
  frameRequested :: bool
  timeline :: Timeline

definition emitFraction :: "real \<Rightarrow> Timeline \<Rightarrow> Timeline" where
  "emitFraction v tm =
     tm\<lparr>animationFractionChangedEmitter := animationFractionChangedEmitter tm @ [v]\<rparr>"

definition onAnimationFrame :: "real \<Rightarrow> Play \<Rightarrow> Play" where
  "onAnimationFrame timestamp pl =
     (let start = (case startTimestamp pl of
                     None \<Rightarrow> timestamp
                   | Some v \<Rightarrow> if v = 0 then timestamp else v);
          progress = timestamp - start
      in
      if progress < animationDuration then
        \<lparr>startTimestamp = Some start, frameRequested = True,
         timeline = emitFraction (progress / animationDuration) (timeline pl)\<rparr>
      else
        \<lparr>startTimestamp = None, frameRequested = False,
         timeline = emitFraction 1 (timeline pl)\<rparr>)"

definition onPlayClick :: "Timeline \<Rightarrow> Play" where
  "onPlayClick tm = \<lparr>startTimestamp = None, frameRequested = True, timeline = tm\<rparr>"

text \<open>
  The platform calls the requested callback once per frame, with the timestamps of the
  frames in order, for as long as a frame is requested.
\<close>

fun runFrames :: "real list \<Rightarrow> Play \<Rightarrow> Play" where
  "runFrames [] pl = pl"
| "runFrames (timestamp # rest) pl =
     (if frameRequested pl then runFrames rest (onAnimationFrame timestamp pl) else pl)"

definition play :: "real list \<Rightarrow> Timeline \<Rightarrow> Play" where
  "play timestamps tm = runFrames timestamps (onPlayClick tm)"

text \<open>
  What the play loop is to emit for the frames \<open>timestamps\<close>: the fraction of the
  duration for each frame before the duration has elapsed since the first frame, then 1
  at the first frame at or after it.
\<close>

definition elapsedFractions :: "real list \<Rightarrow> real list" where
  "elapsedFractions timestamps =
     (case timestamps of
        [] \<Rightarrow> []
      | first # _ \<Rightarrow>
          map (\<lambda>ts. (ts - first) / animationDuration)
            (takeWhile (\<lambda>ts. ts - first < animationDuration) timestamps)
          @ (if list_all (\<lambda>ts. ts - first < animationDuration) timestamps then [] else [1]))"

section \<open>Sequences of mouse events\<close>

text \<open>
  The helper lives through a sequence of handler calls. The component may differ from one
  call to the next, and the active layer's path data may be replaced between two calls.
  A handler that throws leaves the state it had reached.
\<close>

datatype ('p, 'm) Event =
    MouseDown "('p, 'm) Component" Point bool
  | MouseMove "('p, 'm) Component" Point
  | MouseUp "('p, 'm) Component" Point bool
  | MouseLeave Point
  | PathDataChanged 'p

fun handleEvent :: "('p, 'm) Event \<Rightarrow> 'p State \<Rightarrow> 'p State" where
  "handleEvent (MouseDown c pt shift) s = snd (onMouseDown c pt shift s)"
| "handleEvent (MouseMove c pt) s = snd (onMouseMove c pt s)"
| "handleEvent (MouseUp c pt shift) s = snd (onMouseUp c pt shift s)"
| "handleEvent (MouseLeave pt) s = snd (onMouseLeave pt s)"
| "handleEvent (PathDataChanged p) s = s\<lparr>pathData := p\<rparr>"

fun runEvents :: "('p, 'm) Event list \<Rightarrow> 'p State \<Rightarrow> 'p State" where
  "runEvents [] s = s"
| "runEvents (e # es) s = runEvents es (handleEvent e s)"

text \<open>The drag flag is set only while there is a split point to drag.\<close>

definition dragTargetDefined :: "'p State \<Rightarrow> bool" where
  "dragTargetDefined s = (isDragTriggeredFlag s \<longrightarrow> currentDraggableSplitIndex s \<noteq> None)"

text \<open>The state of the helper after a gesture has ended, as its four getters show it.\<close>

definition gestureCleared :: "'p State \<Rightarrow> bool" where
  "gestureCleared s =
     (\<not> isDragTriggered s \<and> getDraggableSplitIndex s = None \<and>
      getProjectionOntoPath s = None \<and> getLastKnownMouseLocation s = None)"

section \<open>A small path library to run the handlers on\<close>

text \<open>
  Path data is the list of its split points, each a pair of a sub-path index and a command
  index; a mutator is such a list too. Splitting appends a point and unsplitting removes
  one.
\<close>

type_synonym SplitPoints = "(int \<times> int) list"

definition exampleComponent ::
  "(Point \<Rightarrow> HitResult) \<Rightarrow> (int option \<Rightarrow> ProjectionOntoPath option)
     \<Rightarrow> (SplitPoints, SplitPoints) Component" where
  "exampleComponent hitAt projectionFor =
     \<lparr>performHitTest = (\<lambda>p pt. hitAt pt),
      isFilled = True,
      isStroked = False,
      dragTriggerTouchSlop = 4,
      distance = (\<lambda>a b. \<bar>px a - px b\<bar> + \<bar>py a - py b\<bar>),
      transformPoint = (\<lambda>pt. pt),
      getSubPath = (\<lambda>p i. \<lparr>isSplit = False\<rparr>),
      getCommand = (\<lambda>p i j. \<lparr>isSplitPoint = ((i, j) \<in> set p), isSplitSegment = False\<rparr>),
      project = (\<lambda>p pt restrictTo. projectionFor restrictTo),
      mutate = (\<lambda>p. p),
      splitCommand = (\<lambda>m i j u. m @ [(i, j)]),
      unsplitCommand = (\<lambda>m i j. removeAll (i, j) m),
      build = (\<lambda>m. m)\<rparr>"

definition noHit :: HitResult where
  "noHit =
     \<lparr>isHit = False, isEndPointHit = False, isSegmentHit = False, isShapeHit = False,
      endPointHits = [], segmentHits = [], shapeHits = []\<rparr>"

definition pointHit :: "int \<Rightarrow> int \<Rightarrow> HitResult" where
  "pointHit i j =
     \<lparr>isHit = True, isEndPointHit = True, isSegmentHit = False, isShapeHit = False,
      endPointHits = [\<lparr>subIdx = i, cmdIdx = j\<rparr>], segmentHits = [], shapeHits = []\<rparr>"

definition projectionAt :: "int \<Rightarrow> int \<Rightarrow> ProjectionOntoPath" where
  "projectionAt i j = \<lparr>subIdx = i, cmdIdx = j, projection = Projection (1 / 2)\<rparr>"

text \<open>
  A helper in the middle of a drag of the split point \<open>(0, 2)\<close>, whose last projection
  onto the path is \<open>proj\<close>.
\<close>

definition dragging :: "ProjectionOntoPath \<Rightarrow> SplitPoints State" where
  "dragging proj =
     \<lparr>currentDraggableSplitIndex = Some \<lparr>subIdx = 0, cmdIdx = 2\<rparr>,
      projectionOntoPath = Some proj,
      isDragTriggeredFlag = True,
      lastKnownMouseLocation = Some (Point 9 9),
      initialMouseDown = Some (Point 0 0),
      pathData = [(0, 2)],
      effects = []\<rparr>"


section \<open>Effects of the primitive operations\<close>

lemma dispatchedOf_append: "dispatchedOf (xs @ ys) = dispatchedOf xs @ dispatchedOf ys"
  by (induction xs rule: dispatchedOf.induct) simp_all

lemma hoversOf_append: "hoversOf (xs @ ys) = hoversOf xs @ hoversOf ys"
  by (induction xs rule: hoversOf.induct) simp_all

lemma dispatched_simps:
  "dispatched (dispatch a s) = dispatched s @ [a]"
  "dispatched (setHover h s) = dispatched s"
  "dispatched (draw s) = dispatched s"
  "dispatched (reset s) = dispatched s"
  by (simp_all add: dispatched_def dispatch_def setHover_def draw_def reset_def dispatchedOf_append)

lemma hoverUpdates_simps:
  "hoverUpdates (dispatch a s) = hoverUpdates s"
  "hoverUpdates (setHover h s) = hoverUpdates s @ [h]"
  "hoverUpdates (draw s) = hoverUpdates s"
  "hoverUpdates (reset s) = hoverUpdates s"
  by (simp_all add: hoverUpdates_def dispatch_def setHover_def draw_def reset_def hoversOf_append)

lemma helper_fields_simps:
  "currentDraggableSplitIndex (dispatch a s) = currentDraggableSplitIndex s"
  "currentDraggableSplitIndex (setHover h s) = currentDraggableSplitIndex s"
  "currentDraggableSplitIndex (draw s) = currentDraggableSplitIndex s"
  "currentDraggableSplitIndex (reset s) = None"
  "isDragTriggeredFlag (dispatch a s) = isDragTriggeredFlag s"
  "isDragTriggeredFlag (setHover h s) = isDragTriggeredFlag s"
  "isDragTriggeredFlag (draw s) = isDragTriggeredFlag s"
  "isDragTriggeredFlag (reset s) = False"
  "projectionOntoPath (dispatch a s) = projectionOntoPath s"
  "projectionOntoPath (setHover h s) = projectionOntoPath s"
  "projectionOntoPath (draw s) = projectionOntoPath s"
  "projectionOntoPath (reset s) = None"
  "lastKnownMouseLocation (dispatch a s) = lastKnownMouseLocation s"
  "lastKnownMouseLocation (setHover h s) = lastKnownMouseLocation s"
  "lastKnownMouseLocation (draw s) = lastKnownMouseLocation s"
  "lastKnownMouseLocation (reset s) = None"
  "pathData (dispatch a s) = pathData s"
  "pathData (setHover h s) = pathData s"
  "pathData (draw s) = pathData s"
  "pathData (reset s) = pathData s"
  by (simp_all add: dispatch_def setHover_def draw_def reset_def)

lemma andThen_simps:
  "andThen (Returned, s) f = f s"
  "andThen (Threw e, s) f = (Threw e, s)"
  by (simp_all add: andThen_def)

lemma hoverOnShape_dispatched: "dispatched (snd (hoverOnShape c hr s)) = dispatched s"
  by (simp add: hoverOnShape_def dispatched_simps split: option.splits)

lemma hoverOnShape_fields:
  "currentDraggableSplitIndex (snd (hoverOnShape c hr s)) = currentDraggableSplitIndex s"
  "isDragTriggeredFlag (snd (hoverOnShape c hr s)) = isDragTriggeredFlag s"
  "projectionOntoPath (snd (hoverOnShape c hr s)) = projectionOntoPath s"
  "lastKnownMouseLocation (snd (hoverOnShape c hr s)) = lastKnownMouseLocation s"
  "pathData (snd (hoverOnShape c hr s)) = pathData s"
  by (simp_all add: hoverOnShape_def helper_fields_simps split: option.splits)

lemma checkForHovers_dispatched: "dispatched (snd (checkForHovers c pt s)) = dispatched s"
  by (simp add: checkForHovers_def Let_def dispatched_simps hoverOnShape_dispatched
      split: option.splits)

lemma checkForHovers_fields:
  "currentDraggableSplitIndex (snd (checkForHovers c pt s)) = currentDraggableSplitIndex s"
  "isDragTriggeredFlag (snd (checkForHovers c pt s)) = isDragTriggeredFlag s"
  "projectionOntoPath (snd (checkForHovers c pt s)) = projectionOntoPath s"
  "lastKnownMouseLocation (snd (checkForHovers c pt s)) = lastKnownMouseLocation s"
  "pathData (snd (checkForHovers c pt s)) = pathData s"
  by (simp_all add: checkForHovers_def Let_def helper_fields_simps hoverOnShape_fields
      split: option.splits)

text \<open>What follows the gesture's own branch in onMouseUp: reset, hover check, draw.\<close>

lemma finish_dispatched:
  "dispatched (snd (andThen (checkForHovers c pt (reset s1)) (\<lambda>s2. (Returned, draw s2))))
     = dispatched s1"
proof (cases "checkForHovers c pt (reset s1)")
  case (Pair out s2)
  with checkForHovers_dispatched[of c pt "reset s1"] have "dispatched s2 = dispatched s1"
    by (simp add: dispatched_simps)
  with Pair show ?thesis by (cases out) (simp_all add: andThen_simps dispatched_simps)
qed

lemma finish_fields:
  "currentDraggableSplitIndex (snd (andThen (checkForHovers c pt (reset s1)) (\<lambda>s2. (Returned, draw s2)))) = None"
  "isDragTriggeredFlag (snd (andThen (checkForHovers c pt (reset s1)) (\<lambda>s2. (Returned, draw s2)))) = False"
  "projectionOntoPath (snd (andThen (checkForHovers c pt (reset s1)) (\<lambda>s2. (Returned, draw s2)))) = None"
  "lastKnownMouseLocation (snd (andThen (checkForHovers c pt (reset s1)) (\<lambda>s2. (Returned, draw s2)))) = None"
  "pathData (snd (andThen (checkForHovers c pt (reset s1)) (\<lambda>s2. (Returned, draw s2)))) = pathData s1"
proof -
  obtain out s2 where p: "checkForHovers c pt (reset s1) = (out, s2)" by (cases "checkForHovers c pt (reset s1)")
  from checkForHovers_fields[of c pt "reset s1"] p
  have f: "currentDraggableSplitIndex s2 = None" "isDragTriggeredFlag s2 = False"
    "projectionOntoPath s2 = None" "lastKnownMouseLocation s2 = None" "pathData s2 = pathData s1"
    by (simp_all add: helper_fields_simps)
  show "currentDraggableSplitIndex (snd (andThen (checkForHovers c pt (reset s1)) (\<lambda>s2. (Returned, draw s2)))) = None"
    using p f by (cases out) (simp_all add: andThen_simps helper_fields_simps)
  show "isDragTriggeredFlag (snd (andThen (checkForHovers c pt (reset s1)) (\<lambda>s2. (Returned, draw s2)))) = False"
    using p f by (cases out) (simp_all add: andThen_simps helper_fields_simps)
  show "projectionOntoPath (snd (andThen (checkForHovers c pt (reset s1)) (\<lambda>s2. (Returned, draw s2)))) = None"
    using p f by (cases out) (simp_all add: andThen_simps helper_fields_simps)
  show "lastKnownMouseLocation (snd (andThen (checkForHovers c pt (reset s1)) (\<lambda>s2. (Returned, draw s2)))) = None"
    using p f by (cases out) (simp_all add: andThen_simps helper_fields_simps)
  show "pathData (snd (andThen (checkForHovers c pt (reset s1)) (\<lambda>s2. (Returned, draw s2)))) = pathData s1"
    using p f by (cases out) (simp_all add: andThen_simps helper_fields_simps)
qed

lemma andThen_Returned:
  "fst (andThen r f) = Returned \<Longrightarrow> \<exists>s. r = (Returned, s)"
  by (cases r; cases "fst r") (auto simp: andThen_def)

lemma andThen_threw: "fst r \<noteq> Returned \<Longrightarrow> andThen r f = r"
  by (cases r; cases "fst r") (auto simp: andThen_def)

section \<open>Ending a drag: moving the split point\<close>

lemma moveSplitPoint_differing:
  assumes "cmdIdx new \<noteq> cmdIdx old"
  shows "moveSplitPoint c pt new old s =
     (Inr (if cmdIdx new > cmdIdx old
           then unsplitCommand c
                  (splitCommand c (mutate c (pathData s)) (subIdx new) (cmdIdx new)
                     (proj_t (projection new)))
                  (subIdx old) (cmdIdx old)
           else splitCommand c
                  (unsplitCommand c (mutate c (pathData s)) (subIdx old) (cmdIdx old))
                  (subIdx new) (cmdIdx new) (proj_t (projection new))), s)"
  using assms by (simp add: moveSplitPoint_def Let_def)

lemma endDrag_differing:
  assumes "projectionOntoPath s = Some new"
    and "currentDraggableSplitIndex s = Some old"
    and "subIdx new = subIdx old"
    and "cmdIdx new \<noteq> cmdIdx old"
  shows "endDrag c pt s =
     (Returned,
      dispatch (UpdateActivePathBlock (build c
              (if cmdIdx new > cmdIdx old
               then unsplitCommand c
                      (splitCommand c (mutate c (pathData s)) (subIdx new) (cmdIdx new)
                         (proj_t (projection new)))
                      (subIdx old) (cmdIdx old)
               else splitCommand c
                      (unsplitCommand c (mutate c (pathData s)) (subIdx old) (cmdIdx old))
                      (subIdx new) (cmdIdx new) (proj_t (projection new)))))
        (reset (dispatch (SetSelections []) (setHover None s))))"
  using assms by (simp add: endDrag_def moveSplitPoint_differing)

text \<open>
  Claim C1. When \<^verbatim>\<open>onMouseUp\<close> ends a triggered drag whose last projection lies on the
  sub-path of the dragged split point at a different command index, the helper dispatches
  \<^verbatim>\<open>SetSelections([])\<close> and then \<^verbatim>\<open>UpdateActivePathBlock\<close> with the path built from the
  starting path by the two mutations in the order that keeps the indices valid: the split
  at the new index and then the unsplit at the old one when the new index is the larger,
  the unsplit and then the split when it is the smaller. Nothing else is dispatched.
\<close>

theorem onMouseUp_moves_split_point:
  assumes "isDragTriggeredFlag s"
    and "projectionOntoPath s = Some new"
    and "currentDraggableSplitIndex s = Some old"
    and "subIdx new = subIdx old"
    and "cmdIdx new \<noteq> cmdIdx old"
  shows "dispatched (snd (onMouseUp c mouseUp shift s)) =
           dispatched s @
           [SetSelections [],
            UpdateActivePathBlock (build c
              (if cmdIdx new > cmdIdx old
               then unsplitCommand c
                      (splitCommand c (mutate c (pathData s)) (subIdx new) (cmdIdx new)
                         (proj_t (projection new)))
                      (subIdx old) (cmdIdx old)
               else splitCommand c
                      (unsplitCommand c (mutate c (pathData s)) (subIdx old) (cmdIdx old))
                      (subIdx new) (cmdIdx new) (proj_t (projection new))))]"
proof -
  let ?s = "s\<lparr>lastKnownMouseLocation := Some mouseUp\<rparr>"
  have d: "dispatched ?s = dispatched s" by (simp add: dispatched_def)
  have e: "endDrag c mouseUp ?s = (Returned,
      dispatch (UpdateActivePathBlock (build c
              (if cmdIdx new > cmdIdx old
               then unsplitCommand c
                      (splitCommand c (mutate c (pathData s)) (subIdx new) (cmdIdx new)
                         (proj_t (projection new)))
                      (subIdx old) (cmdIdx old)
               else splitCommand c
                      (unsplitCommand c (mutate c (pathData s)) (subIdx old) (cmdIdx old))
                      (subIdx new) (cmdIdx new) (proj_t (projection new)))))
        (reset (dispatch (SetSelections []) (setHover None ?s))))"
    using endDrag_differing[of ?s new old c mouseUp] assms(2-5) by simp
  have "onMouseUp c mouseUp shift s =
      andThen (endDrag c mouseUp ?s)
        (\<lambda>s1. andThen (checkForHovers c mouseUp (reset s1)) (\<lambda>s2. (Returned, draw s2)))"
    using assms(1) by (simp add: onMouseUp_def Let_def)
  then show ?thesis
    unfolding e by (simp add: andThen_simps finish_dispatched dispatched_simps d)
qed

theorem onMouseUp_moves_split_point_witness:
  "dispatched (snd (onMouseUp (exampleComponent (\<lambda>pt. noHit) (\<lambda>r. None)) (Point 9 9) False
                      (dragging (projectionAt 0 5))))
     = [SetSelections [], UpdateActivePathBlock [(0, 5)]] \<and>
   dispatched (snd (onMouseUp (exampleComponent (\<lambda>pt. noHit) (\<lambda>r. None)) (Point 9 9) False
                      (dragging (projectionAt 0 1))))
     = [SetSelections [], UpdateActivePathBlock [(0, 1)]]"
  using onMouseUp_moves_split_point
          [of "dragging (projectionAt 0 5)" "projectionAt 0 5" "\<lparr>subIdx = 0, cmdIdx = 2\<rparr>"
              "exampleComponent (\<lambda>pt. noHit) (\<lambda>r. None)" "Point 9 9" False]
        onMouseUp_moves_split_point
          [of "dragging (projectionAt 0 1)" "projectionAt 0 1" "\<lparr>subIdx = 0, cmdIdx = 2\<rparr>"
              "exampleComponent (\<lambda>pt. noHit) (\<lambda>r. None)" "Point 9 9" False]
  by (simp add: dragging_def projectionAt_def exampleComponent_def dispatched_def)


section \<open>Ending a drag: giving up\<close>

lemma endDrag_other_subIdx:
  assumes "projectionOntoPath s = Some new"
    and "currentDraggableSplitIndex s = Some old"
    and "subIdx new \<noteq> subIdx old"
  shows "endDrag c pt s = (Returned, s)"
  using assms by (simp add: endDrag_def)

lemma endDrag_give_up:
  assumes "projectionOntoPath s = Some new"
    and "currentDraggableSplitIndex s = Some old"
    and "subIdx new = subIdx old"
    and "cmdIdx new = cmdIdx old"
    and "calculateProjectionOntoPath c
           (build c (unsplitCommand c (mutate c (pathData s)) (subIdx old) (cmdIdx old)))
           pt None = Some again"
    and "subIdx again \<noteq> subIdx old"
  shows "endDrag c pt s =
     (Returned,
      dispatch (UpdateActivePathBlock (build c (mutate c (pathData s))))
        (reset (dispatch (SetSelections []) (setHover None
           (s\<lparr>pathData :=
                build c (unsplitCommand c (mutate c (pathData s)) (subIdx old) (cmdIdx old))\<rparr>)))))"
  using assms by (simp add: endDrag_def moveSplitPoint_def Let_def)

text \<open>
  Claim C2. A triggered drag whose projection does not match the dragged point is given
  up. When the last projection lies on another sub-path, \<^verbatim>\<open>onMouseUp\<close> dispatches nothing
  and leaves the layer's path data as it was. When the projection has the sub-path and the
  command index of the dragged point, and the projection computed again after the unsplit
  lies on another sub-path, the mutator is replaced by a fresh mutator of the starting
  path: the action dispatched is \<^verbatim>\<open>UpdateActivePathBlock\<close> with the path this fresh
  mutator builds, which is the starting path for a path library whose \<^verbatim>\<open>build\<close> of an
  unchanged mutator returns the path it was made from.
\<close>

theorem onMouseUp_gives_up_on_mismatch:
  assumes "isDragTriggeredFlag s"
    and "projectionOntoPath s = Some new"
    and "currentDraggableSplitIndex s = Some old"
  shows "(subIdx new \<noteq> subIdx old \<longrightarrow>
            dispatched (snd (onMouseUp c mouseUp shift s)) = dispatched s \<and>
            pathData (snd (onMouseUp c mouseUp shift s)) = pathData s) \<and>
         (subIdx new = subIdx old \<and> cmdIdx new = cmdIdx old \<and>
          (\<exists>again.
             calculateProjectionOntoPath c
               (build c (unsplitCommand c (mutate c (pathData s)) (subIdx old) (cmdIdx old)))
               mouseUp None = Some again \<and>
             subIdx again \<noteq> subIdx old) \<longrightarrow>
            dispatched (snd (onMouseUp c mouseUp shift s)) =
              dispatched s @
              [SetSelections [], UpdateActivePathBlock (build c (mutate c (pathData s)))] \<and>
            (build c (mutate c (pathData s)) = pathData s \<longrightarrow>
               last (dispatched (snd (onMouseUp c mouseUp shift s))) =
                 UpdateActivePathBlock (pathData s)))"
proof -
  let ?s = "s\<lparr>lastKnownMouseLocation := Some mouseUp\<rparr>"
  have d: "dispatched ?s = dispatched s" by (simp add: dispatched_def)
  have up: "onMouseUp c mouseUp shift s =
      andThen (endDrag c mouseUp ?s)
        (\<lambda>s1. andThen (checkForHovers c mouseUp (reset s1)) (\<lambda>s2. (Returned, draw s2)))"
    using assms(1) by (simp add: onMouseUp_def Let_def)
  have a: "dispatched (snd (onMouseUp c mouseUp shift s)) = dispatched s \<and>
           pathData (snd (onMouseUp c mouseUp shift s)) = pathData s"
    if "subIdx new \<noteq> subIdx old"
  proof -
    have "endDrag c mouseUp ?s = (Returned, ?s)"
      using endDrag_other_subIdx[of ?s new old c mouseUp] assms(2,3) that by simp
    then show ?thesis
      unfolding up by (simp add: andThen_simps finish_dispatched finish_fields d)
  qed
  have b: "dispatched (snd (onMouseUp c mouseUp shift s)) =
             dispatched s @
             [SetSelections [], UpdateActivePathBlock (build c (mutate c (pathData s)))]"
    if "subIdx new = subIdx old" "cmdIdx new = cmdIdx old"
       "calculateProjectionOntoPath c
          (build c (unsplitCommand c (mutate c (pathData s)) (subIdx old) (cmdIdx old)))
          mouseUp None = Some again"
       "subIdx again \<noteq> subIdx old" for again
  proof -
    have "endDrag c mouseUp ?s =
       (Returned,
        dispatch (UpdateActivePathBlock (build c (mutate c (pathData s))))
          (reset (dispatch (SetSelections []) (setHover None
             (?s\<lparr>pathData :=
                  build c (unsplitCommand c (mutate c (pathData s)) (subIdx old) (cmdIdx old))\<rparr>)))))"
      using endDrag_give_up[of ?s new old c mouseUp again] assms(2,3) that by simp
    then show ?thesis
      unfolding up
      by (simp add: andThen_simps finish_dispatched dispatched_simps)
         (simp add: dispatched_def)
  qed
  from a b show ?thesis by auto
qed

theorem onMouseUp_gives_up_on_mismatch_witness:
  "dispatched (snd (onMouseUp (exampleComponent (\<lambda>pt. noHit) (\<lambda>r. None)) (Point 9 9) False
                      (dragging (projectionAt 1 2)))) = [] \<and>
   pathData (snd (onMouseUp (exampleComponent (\<lambda>pt. noHit) (\<lambda>r. None)) (Point 9 9) False
                      (dragging (projectionAt 1 2)))) = [(0, 2)] \<and>
   dispatched (snd (onMouseUp (exampleComponent (\<lambda>pt. noHit) (\<lambda>r. Some (projectionAt 1 0)))
                      (Point 9 9) False (dragging (projectionAt 0 2))))
     = [SetSelections [], UpdateActivePathBlock [(0, 2)]] \<and>
   last (dispatched (snd (onMouseUp (exampleComponent (\<lambda>pt. noHit) (\<lambda>r. Some (projectionAt 1 0)))
                      (Point 9 9) False (dragging (projectionAt 0 2)))))
     = UpdateActivePathBlock [(0, 2)]"
  using onMouseUp_gives_up_on_mismatch
          [of "dragging (projectionAt 1 2)" "projectionAt 1 2" "\<lparr>subIdx = 0, cmdIdx = 2\<rparr>"
              "exampleComponent (\<lambda>pt. noHit) (\<lambda>r. None)" "Point 9 9" False]
        onMouseUp_gives_up_on_mismatch
          [of "dragging (projectionAt 0 2)" "projectionAt 0 2" "\<lparr>subIdx = 0, cmdIdx = 2\<rparr>"
              "exampleComponent (\<lambda>pt. noHit) (\<lambda>r. Some (projectionAt 1 0))" "Point 9 9" False]
  by (simp add: dragging_def projectionAt_def exampleComponent_def dispatched_def
       calculateProjectionOntoPath_def)

text \<open>
  When the drag is given up after the unsplit, the layer's path data still holds the
  unsplit path as the handler returns: line 121 assigns it and nothing in the helper
  assigns the starting path back. The dispatched action carries the starting path to
  the store.
\<close>

lemma onMouseUp_give_up_leaves_unsplit_path:
  assumes "isDragTriggeredFlag s"
    and "projectionOntoPath s = Some new"
    and "currentDraggableSplitIndex s = Some old"
    and "subIdx new = subIdx old"
    and "cmdIdx new = cmdIdx old"
    and "calculateProjectionOntoPath c
           (build c (unsplitCommand c (mutate c (pathData s)) (subIdx old) (cmdIdx old)))
           mouseUp None = Some again"
    and "subIdx again \<noteq> subIdx old"
  shows "pathData (snd (onMouseUp c mouseUp shift s)) =
           build c (unsplitCommand c (mutate c (pathData s)) (subIdx old) (cmdIdx old))"
proof -
  let ?s = "s\<lparr>lastKnownMouseLocation := Some mouseUp\<rparr>"
  have up: "onMouseUp c mouseUp shift s =
      andThen (endDrag c mouseUp ?s)
        (\<lambda>s1. andThen (checkForHovers c mouseUp (reset s1)) (\<lambda>s2. (Returned, draw s2)))"
    using assms(1) by (simp add: onMouseUp_def Let_def)
  have "endDrag c mouseUp ?s =
     (Returned,
      dispatch (UpdateActivePathBlock (build c (mutate c (pathData s))))
        (reset (dispatch (SetSelections []) (setHover None
           (?s\<lparr>pathData :=
                build c (unsplitCommand c (mutate c (pathData s)) (subIdx old) (cmdIdx old))\<rparr>)))))"
    using endDrag_give_up[of ?s new old c mouseUp again] assms(2-7) by simp
  then show ?thesis
    unfolding up by (simp add: andThen_simps finish_fields helper_fields_simps)
qed

section \<open>The finders return the last split hit\<close>

lemma findLastIndex_none: "\<not> (\<exists>x \<in> set xs. P x) \<Longrightarrow> findLastIndex xs P = -1"
  by (induction xs) (auto simp: Let_def)

lemma findLastIndex_some:
  "\<exists>x \<in> set xs. P x \<Longrightarrow>
     0 \<le> findLastIndex xs P \<and> findLastIndex xs P < int (length xs) \<and>
     xs ! nat (findLastIndex xs P) = last (filter P xs)"
proof (induction xs)
  case Nil
  then show ?case by simp
next
  case (Cons x xs)
  show ?case
  proof (cases "\<exists>y \<in> set xs. P y")
    case True
    with Cons.IH have ih: "0 \<le> findLastIndex xs P" "findLastIndex xs P < int (length xs)"
      "xs ! nat (findLastIndex xs P) = last (filter P xs)" by simp_all
    from True have ne: "filter P xs \<noteq> []" by (simp add: filter_empty_conv)
    from ih ne show ?thesis by (simp add: Let_def nat_add_distrib)
  next
    case False
    then have m: "findLastIndex xs P = -1" by (rule findLastIndex_none)
    from False have e: "filter P xs = []" by (simp add: filter_empty_conv)
    from Cons.prems False have "P x" by auto
    with m e show ?thesis by (simp add: Let_def)
  qed
qed

lemma pick_last_split:
  assumes "xs \<noteq> []"
  shows "arrayGet xs (if findLastIndex xs P < 0 then int (length xs) - 1 else findLastIndex xs P)
     = Some (last (if filter P xs = [] then xs else filter P xs))"
proof (cases "\<exists>x \<in> set xs. P x")
  case True
  from findLastIndex_some[OF True] True show ?thesis
    by (auto simp: arrayGet_def filter_empty_conv)
next
  case False
  then have m: "findLastIndex xs P = -1" by (rule findLastIndex_none)
  from False have e: "filter P xs = []" by (simp add: filter_empty_conv)
  from assms have "xs ! (length xs - 1) = last xs" by (simp add: last_conv_nth)
  moreover from assms have "nat (int (length xs) - 1) = length xs - 1" by simp
  moreover from assms have "0 < length xs" by simp
  ultimately show ?thesis using m e by (simp add: arrayGet_def)
qed

lemma last_filter_map:
  assumes "xs \<noteq> []"
  shows "last (if filter P (map f xs) = [] then map f xs else filter P (map f xs))
       = f (last (if filter (\<lambda>x. P (f x)) xs = [] then xs else filter (\<lambda>x. P (f x)) xs))"
  using assms by (auto simp: filter_map last_map comp_def)

lemma cmdInfo_cmd: "cmd (cmdInfo c p h) = getCommand c p (subIdx h) (cmdIdx h)"
  by (simp add: cmdInfo_def)


lemma findHitPoint_last:
  assumes "hits \<noteq> []"
  shows "findHitPoint c p hits =
           Some (cmdInfo c p (last (
             if filter (\<lambda>h. isSplitPoint (getCommand c p (subIdx h) (cmdIdx h))) hits = []
             then hits
             else filter (\<lambda>h. isSplitPoint (getCommand c p (subIdx h) (cmdIdx h))) hits)))"
  using assms
  by (simp add: findHitPoint_def Let_def pick_last_split last_filter_map cmdInfo_cmd)





section \<open>A mouse down that hits nothing\<close>

text \<open>
  Claim C5. A mouse down whose hit test reports no end point, no segment and no shape
  returns; without the shift or meta key its only effect is one dispatch of
  \<^verbatim>\<open>SetSelections([])\<close>, and with the key pressed it has no effect at all.
\<close>

theorem onMouseDown_nothing_hit:
  assumes "\<not> isEndPointHit (performHitTest c (pathData s) mouseDown)"
    and "\<not> isSegmentHit (performHitTest c (pathData s) mouseDown)"
    and "\<not> isShapeHit (performHitTest c (pathData s) mouseDown)"
  shows "fst (onMouseDown c mouseDown shift s) = Returned \<and>
         effects (snd (onMouseDown c mouseDown shift s)) =
           effects s @ (if shift then [] else [Dispatch (SetSelections [])]) \<and>
         dispatched (snd (onMouseDown c mouseDown shift s)) =
           dispatched s @ (if shift then [] else [SetSelections []])"
  using assms
  by (simp add: onMouseDown_def Let_def selectSubPathOrClear_def dispatch_def dispatched_def
      dispatchedOf_append)

theorem onMouseDown_nothing_hit_witness:
  "dispatched (snd (onMouseDown (exampleComponent (\<lambda>pt. noHit) (\<lambda>r. None)) (Point 1 1) False
                      (newHelper [(0, 2)]))) = [SetSelections []] \<and>
   dispatched (snd (onMouseDown (exampleComponent (\<lambda>pt. noHit) (\<lambda>r. None)) (Point 1 1) True
                      (newHelper [(0, 2)]))) = []"
  using onMouseDown_nothing_hit
          [of "exampleComponent (\<lambda>pt. noHit) (\<lambda>r. None)" "newHelper [(0, 2)]" "Point 1 1" False]
        onMouseDown_nothing_hit
          [of "exampleComponent (\<lambda>pt. noHit) (\<lambda>r. None)" "newHelper [(0, 2)]" "Point 1 1" True]
  by (simp add: exampleComponent_def noHit_def newHelper_def dispatched_def)

section \<open>The slider and the checkbox of the timeline\<close>

text \<open>
  Claim C7. \<^verbatim>\<open>onAnimationFractionSliderChanged\<close> emits exactly one value, the slider value
  divided by \<^verbatim>\<open>maxAnimationFractionSliderValue\<close>, which is 1000, so that a slider value
  between 0 and 1000 gives a fraction between 0 and 1; \<^verbatim>\<open>onLabelPointsCheckboxChanged\<close>
  emits exactly the boolean it receives.
\<close>

theorem slider_fraction_is_linear:
  "animationFractionChangedEmitter (onAnimationFractionSliderChanged sliderValue tm) =
     animationFractionChangedEmitter tm @ [sliderValue / maxAnimationFractionSliderValue] \<and>
   labelPointsChangedEmitter (onAnimationFractionSliderChanged sliderValue tm) =
     labelPointsChangedEmitter tm \<and>
   maxAnimationFractionSliderValue = 1000 \<and>
   (0 \<le> sliderValue \<and> sliderValue \<le> 1000 \<longrightarrow>
      0 \<le> sliderValue / maxAnimationFractionSliderValue \<and>
      sliderValue / maxAnimationFractionSliderValue \<le> 1) \<and>
   labelPointsChangedEmitter (onLabelPointsCheckboxChanged shouldLabel tm) =
     labelPointsChangedEmitter tm @ [shouldLabel] \<and>
   animationFractionChangedEmitter (onLabelPointsCheckboxChanged shouldLabel tm) =
     animationFractionChangedEmitter tm"
  by (simp add: onAnimationFractionSliderChanged_def onLabelPointsCheckboxChanged_def
      maxAnimationFractionSliderValue_def)

theorem slider_fraction_is_linear_witness:
  "animationFractionChangedEmitter
     (onAnimationFractionSliderChanged 250
        \<lparr>labelPointsChangedEmitter = [], animationFractionChangedEmitter = []\<rparr>) = [1 / 4] \<and>
   (0::real) \<le> 250 / maxAnimationFractionSliderValue \<and>
   (250::real) / maxAnimationFractionSliderValue \<le> 1 \<and>
   labelPointsChangedEmitter
     (onLabelPointsCheckboxChanged True
        \<lparr>labelPointsChangedEmitter = [], animationFractionChangedEmitter = []\<rparr>) = [True]"
  using slider_fraction_is_linear
          [of 250 "\<lparr>labelPointsChangedEmitter = [], animationFractionChangedEmitter = []\<rparr>" True]
  by simp

section \<open>The end of a gesture clears the helper\<close>

lemma onMouseUp_cleared_fields:
  assumes "fst (onMouseUp c pt shift s) = Returned"
  shows "gestureCleared (snd (onMouseUp c pt shift s))"
proof -
  let ?s = "s\<lparr>lastKnownMouseLocation := Some pt\<rparr>"
  let ?first = "if isDragTriggeredFlag ?s then endDrag c pt ?s
         else if currentDraggableSplitIndex ?s \<noteq> None
           then selectOnMouseUp c pt shift ?s
         else (Returned, ?s)"
  have up: "onMouseUp c pt shift s =
      andThen ?first
        (\<lambda>s1. andThen (checkForHovers c pt (reset s1)) (\<lambda>s2. (Returned, draw s2)))"
    by (simp add: onMouseUp_def Let_def)
  from assms obtain s1 where f: "?first = (Returned, s1)"
    unfolding up using andThen_Returned by blast
  show ?thesis
    unfolding up f
    by (simp add: andThen_simps gestureCleared_def isDragTriggered_def getDraggableSplitIndex_def
        getProjectionOntoPath_def getLastKnownMouseLocation_def finish_fields)
qed

text \<open>
  Claim C10. \<^verbatim>\<open>onMouseLeave\<close> always returns, and after it, and after every call of
  \<^verbatim>\<open>onMouseUp\<close> that returns, \<^verbatim>\<open>isDragTriggered()\<close> is false and the three other
  getters return \<^verbatim>\<open>undefined\<close>, the last known mouse location included: both handlers
  store the event's point on entry and \<^verbatim>\<open>reset\<close> clears it before they return.
\<close>

theorem gesture_end_clears_helper:
  "fst (onMouseLeave pt s) = Returned \<and>
   gestureCleared (snd (onMouseLeave pt s)) \<and>
   (fst (onMouseUp c pt shift s) = Returned \<longrightarrow> gestureCleared (snd (onMouseUp c pt shift s)))"
  using onMouseUp_cleared_fields[of c pt shift s]
  by (simp add: onMouseLeave_def gestureCleared_def isDragTriggered_def
      getDraggableSplitIndex_def getProjectionOntoPath_def getLastKnownMouseLocation_def
      helper_fields_simps)

theorem gesture_end_clears_helper_witness:
  "fst (onMouseUp (exampleComponent (\<lambda>pt. noHit) (\<lambda>r. None)) (Point 9 9) False
          (dragging (projectionAt 0 5))) = Returned \<and>
   gestureCleared (snd (onMouseUp (exampleComponent (\<lambda>pt. noHit) (\<lambda>r. None)) (Point 9 9) False
          (dragging (projectionAt 0 5)))) \<and>
   gestureCleared (snd (onMouseLeave (Point 9 9) (dragging (projectionAt 0 5))))"
proof -
  have r: "fst (onMouseUp (exampleComponent (\<lambda>pt. noHit) (\<lambda>r. None)) (Point 9 9) False
          (dragging (projectionAt 0 5))) = Returned"
    by (simp add: onMouseUp_def endDrag_def moveSplitPoint_def checkForHovers_def Let_def
        andThen_def dragging_def projectionAt_def exampleComponent_def noHit_def reset_def
        dispatch_def setHover_def draw_def)
  from gesture_end_clears_helper
         [of "Point 9 9" "dragging (projectionAt 0 5)"
             "exampleComponent (\<lambda>pt. noHit) (\<lambda>r. None)" False] r
  show ?thesis by simp
qed

section \<open>Hover tracking on mouse move\<close>

lemma checkDragTrigger_idle:
  "currentDraggableSplitIndex s = None \<Longrightarrow> checkDragTrigger c pt s = (Returned, s)"
  by (simp add: checkDragTrigger_def)

lemma checkDragTrigger_hovers:
  "hoverUpdates (snd (checkDragTrigger c pt s)) = hoverUpdates s"
  by (simp add: checkDragTrigger_def hoverUpdates_def split: option.splits)

lemma checkDragTrigger_index:
  "currentDraggableSplitIndex (snd (checkDragTrigger c pt s)) = currentDraggableSplitIndex s"
  by (simp add: checkDragTrigger_def split: option.splits)

lemma onMouseMove_idle:
  assumes "currentDraggableSplitIndex s = None" and "\<not> isDragTriggeredFlag s"
  shows "onMouseMove c pt s =
           andThen (checkForHovers c pt (s\<lparr>lastKnownMouseLocation := Some pt\<rparr>))
             (\<lambda>s'. (Returned, draw s'))"
  using assms by (simp add: onMouseMove_def checkDragTrigger_idle andThen_simps)

lemma onMouseMove_pending_hovers:
  assumes "currentDraggableSplitIndex s \<noteq> None"
  shows "hoverUpdates (snd (onMouseMove c pt s)) = hoverUpdates s"
proof -
  let ?s = "s\<lparr>lastKnownMouseLocation := Some pt\<rparr>"
  obtain out s1 where t: "checkDragTrigger c pt ?s = (out, s1)"
    by (cases "checkDragTrigger c pt ?s")
  from checkDragTrigger_hovers[of c pt ?s] t have h: "hoverUpdates s1 = hoverUpdates s"
    by (simp add: hoverUpdates_def)
  from checkDragTrigger_index[of c pt ?s] t assms
  obtain index where i: "currentDraggableSplitIndex s1 = Some index" by auto
  show ?thesis
  proof (cases out)
    case Returned
    with t h i show ?thesis
      by (simp add: onMouseMove_def andThen_simps checkForHovers_def hoverUpdates_simps)
         (simp add: hoverUpdates_def)
  next
    case (Threw e)
    with t h show ?thesis by (simp add: onMouseMove_def andThen_simps)
  qed
qed

lemma cmdInfo_indices:
  "subIdx (cmdInfo c p h) = subIdx h" "cmdIdx (cmdInfo c p h) = cmdIdx h"
  by (simp_all add: cmdInfo_def)

text \<open>
  Claim C6. On a mouse move with no split point pending and no drag triggered, a hit on an
  end point sets the hover to a point hover with the indices of the disambiguated hit (the
  last hit on a split point, or the last hit when there is none), and a miss sets the
  hover to \<^verbatim>\<open>undefined\<close>. While a split point is pending, a mouse move makes no call of
  \<^verbatim>\<open>setHover\<close>, whether it returns or throws.
\<close>

theorem onMouseMove_tracks_hover:
  "(currentDraggableSplitIndex s = None \<and> \<not> isDragTriggeredFlag s \<and>
    isHit (performHitTest c (pathData s) pt) \<and>
    isEndPointHit (performHitTest c (pathData s) pt) \<and>
    endPointHits (performHitTest c (pathData s) pt) = hits \<and> hits \<noteq> [] \<and>
    last (if filter (\<lambda>h. isSplitPoint (getCommand c (pathData s) (subIdx h) (cmdIdx h))) hits = []
          then hits
          else filter (\<lambda>h. isSplitPoint (getCommand c (pathData s) (subIdx h) (cmdIdx h))) hits)
      = hit \<longrightarrow>
      fst (onMouseMove c pt s) = Returned \<and>
      hoverUpdates (snd (onMouseMove c pt s)) =
        hoverUpdates s @ [Some (Hover HoverPoint (subIdx hit) (Some (cmdIdx hit)))]) \<and>
   (currentDraggableSplitIndex s = None \<and> \<not> isDragTriggeredFlag s \<and>
    \<not> isHit (performHitTest c (pathData s) pt) \<longrightarrow>
      fst (onMouseMove c pt s) = Returned \<and>
      hoverUpdates (snd (onMouseMove c pt s)) = hoverUpdates s @ [None]) \<and>
   (currentDraggableSplitIndex s \<noteq> None \<longrightarrow>
      hoverUpdates (snd (onMouseMove c pt s)) = hoverUpdates s)"
proof (intro conjI impI)
  assume a: "currentDraggableSplitIndex s = None \<and> \<not> isDragTriggeredFlag s \<and>
    isHit (performHitTest c (pathData s) pt) \<and>
    isEndPointHit (performHitTest c (pathData s) pt) \<and>
    endPointHits (performHitTest c (pathData s) pt) = hits \<and> hits \<noteq> [] \<and>
    last (if filter (\<lambda>h. isSplitPoint (getCommand c (pathData s) (subIdx h) (cmdIdx h))) hits = []
          then hits
          else filter (\<lambda>h. isSplitPoint (getCommand c (pathData s) (subIdx h) (cmdIdx h))) hits)
      = hit"
  then have f: "findHitPoint c (pathData s) (endPointHits (performHitTest c (pathData s) pt))
                  = Some (cmdInfo c (pathData s) hit)"
    using findHitPoint_last[of hits c "pathData s"] by blast
  from a f show "fst (onMouseMove c pt s) = Returned"
    by (simp add: onMouseMove_idle checkForHovers_def Let_def andThen_simps)
  from a f show "hoverUpdates (snd (onMouseMove c pt s)) =
        hoverUpdates s @ [Some (Hover HoverPoint (subIdx hit) (Some (cmdIdx hit)))]"
    by (simp add: onMouseMove_idle checkForHovers_def Let_def andThen_simps hoverUpdates_simps
          cmdInfo_indices)
       (simp add: hoverUpdates_def)
next
  assume a: "currentDraggableSplitIndex s = None \<and> \<not> isDragTriggeredFlag s \<and>
    \<not> isHit (performHitTest c (pathData s) pt)"
  then show "fst (onMouseMove c pt s) = Returned"
    by (simp add: onMouseMove_idle checkForHovers_def Let_def andThen_simps)
  from a show "hoverUpdates (snd (onMouseMove c pt s)) = hoverUpdates s @ [None]"
    by (simp add: onMouseMove_idle checkForHovers_def Let_def andThen_simps hoverUpdates_simps)
       (simp add: hoverUpdates_def)
next
  assume "currentDraggableSplitIndex s \<noteq> None"
  then show "hoverUpdates (snd (onMouseMove c pt s)) = hoverUpdates s"
    by (rule onMouseMove_pending_hovers)
qed

theorem onMouseMove_tracks_hover_witness:
  "hoverUpdates (snd (onMouseMove (exampleComponent (\<lambda>pt. pointHit 0 2) (\<lambda>r. None)) (Point 1 1)
                        (newHelper [(0, 2)])))
     = [Some (Hover HoverPoint 0 (Some 2))] \<and>
   hoverUpdates (snd (onMouseMove (exampleComponent (\<lambda>pt. noHit) (\<lambda>r. None)) (Point 1 1)
                        (newHelper [(0, 2)])))
     = [None] \<and>
   hoverUpdates (snd (onMouseMove (exampleComponent (\<lambda>pt. noHit) (\<lambda>r. None)) (Point 1 1)
                        (dragging (projectionAt 0 5))))
     = []"
  using onMouseMove_tracks_hover
          [of "newHelper [(0, 2)]" "exampleComponent (\<lambda>pt. pointHit 0 2) (\<lambda>r. None)" "Point 1 1"
              "[\<lparr>subIdx = 0, cmdIdx = 2\<rparr>]" "\<lparr>subIdx = 0, cmdIdx = 2\<rparr>"]
        onMouseMove_tracks_hover
          [of "newHelper [(0, 2)]" "exampleComponent (\<lambda>pt. noHit) (\<lambda>r. None)" "Point 1 1"]
        onMouseMove_tracks_hover
          [of "dragging (projectionAt 0 5)" "exampleComponent (\<lambda>pt. noHit) (\<lambda>r. None)" "Point 1 1"]
  by (simp add: exampleComponent_def pointHit_def noHit_def newHelper_def dragging_def
       hoverUpdates_def)

section \<open>The drag flag implies a drag target\<close>

lemma dragTargetDefined_effects:
  "dragTargetDefined (dispatch a s) = dragTargetDefined s"
  "dragTargetDefined (setHover h s) = dragTargetDefined s"
  "dragTargetDefined (draw s) = dragTargetDefined s"
  "dragTargetDefined (reset s)"
  by (simp_all add: dragTargetDefined_def helper_fields_simps)

lemma dragTargetDefined_cong:
  "isDragTriggeredFlag s' = isDragTriggeredFlag s \<Longrightarrow>
   currentDraggableSplitIndex s' = currentDraggableSplitIndex s \<Longrightarrow>
   dragTargetDefined s' = dragTargetDefined s"
  by (simp add: dragTargetDefined_def)

lemma checkForHovers_dragTargetDefined:
  "dragTargetDefined (snd (checkForHovers c pt s)) = dragTargetDefined s"
  by (rule dragTargetDefined_cong) (simp_all add: checkForHovers_fields)

lemma selectSubPathOrClear_fields:
  "currentDraggableSplitIndex (snd (selectSubPathOrClear c hr shift s)) = currentDraggableSplitIndex s"
  "isDragTriggeredFlag (snd (selectSubPathOrClear c hr shift s)) = isDragTriggeredFlag s"
  by (simp_all add: selectSubPathOrClear_def helper_fields_simps split: option.splits)

lemma onMouseDown_dragTargetDefined:
  assumes "dragTargetDefined s"
  shows "dragTargetDefined (snd (onMouseDown c pt shift s))"
  using assms
  by (simp add: onMouseDown_def Let_def dragTargetDefined_def helper_fields_simps
      selectSubPathOrClear_fields split: option.splits)

lemma onMouseMove_dragTargetDefined:
  assumes "dragTargetDefined s"
  shows "dragTargetDefined (snd (onMouseMove c pt s))"
proof -
  let ?s = "s\<lparr>lastKnownMouseLocation := Some pt\<rparr>"
  obtain out s1 where t: "checkDragTrigger c pt ?s = (out, s1)"
    by (cases "checkDragTrigger c pt ?s")
  from assms t have i1: "dragTargetDefined s1"
    by (auto simp: checkDragTrigger_def dragTargetDefined_def split: option.splits if_splits)
  show ?thesis
  proof (cases out)
    case (Threw e)
    with t i1 show ?thesis by (simp add: onMouseMove_def andThen_simps)
  next
    case Returned
    show ?thesis
    proof (cases "isDragTriggeredFlag s1")
      case True
      with i1 obtain index where "currentDraggableSplitIndex s1 = Some index"
        by (auto simp: dragTargetDefined_def)
      with True Returned t show ?thesis
        by (simp add: onMouseMove_def andThen_simps dragTargetDefined_def helper_fields_simps)
    next
      case False
      obtain out2 s2 where h: "checkForHovers c pt s1 = (out2, s2)"
        by (cases "checkForHovers c pt s1")
      from checkForHovers_dragTargetDefined[of c pt s1] h i1 have "dragTargetDefined s2" by simp
      with False Returned t h show ?thesis
        by (cases out2) (simp_all add: onMouseMove_def andThen_simps dragTargetDefined_effects)
    qed
  qed
qed

lemma finish_dragTargetDefined:
  "dragTargetDefined (snd (andThen (checkForHovers c pt (reset s1)) (\<lambda>s2. (Returned, draw s2))))"
  by (simp add: dragTargetDefined_def finish_fields)

lemma endDrag_dragTargetDefined:
  assumes "dragTargetDefined s" and "endDrag c pt s = (Threw e, s1)"
  shows "dragTargetDefined s1"
  using assms
  by (auto simp: endDrag_def moveSplitPoint_def Let_def dragTargetDefined_def
      split: option.splits if_splits)

lemma selectOnMouseUp_dragTargetDefined:
  assumes "dragTargetDefined s"
  shows "dragTargetDefined (snd (selectOnMouseUp c pt shift s))"
  using assms
  by (simp add: selectOnMouseUp_def Let_def dragTargetDefined_def helper_fields_simps
      split: option.splits)

lemma onMouseUp_dragTargetDefined:
  assumes "dragTargetDefined s"
  shows "dragTargetDefined (snd (onMouseUp c pt shift s))"
proof -
  let ?s = "s\<lparr>lastKnownMouseLocation := Some pt\<rparr>"
  let ?first = "if isDragTriggeredFlag ?s then endDrag c pt ?s
         else if currentDraggableSplitIndex ?s \<noteq> None
           then selectOnMouseUp c pt shift ?s
         else (Returned, ?s)"
  have up: "onMouseUp c pt shift s =
      andThen ?first
        (\<lambda>s1. andThen (checkForHovers c pt (reset s1)) (\<lambda>s2. (Returned, draw s2)))"
    by (simp add: onMouseUp_def Let_def)
  from assms have i: "dragTargetDefined ?s" by (simp add: dragTargetDefined_def)
  obtain out s1 where f: "?first = (out, s1)" by (cases ?first)
  show ?thesis
  proof (cases out)
    case Returned
    with f show ?thesis unfolding up by (simp add: andThen_simps finish_dragTargetDefined)
  next
    case (Threw e)
    have "dragTargetDefined s1"
    proof (cases "isDragTriggeredFlag ?s")
      case True
      with f Threw have "endDrag c pt ?s = (Threw e, s1)" by simp
      with i show ?thesis by (rule endDrag_dragTargetDefined)
    next
      case False
      with f Threw have "s1 = snd (selectOnMouseUp c pt shift ?s)"
        by (auto split: if_splits)
      with i show ?thesis by (simp add: selectOnMouseUp_dragTargetDefined)
    qed
    with f Threw show ?thesis unfolding up by (simp add: andThen_simps)
  qed
qed

lemma handleEvent_dragTargetDefined:
  assumes "dragTargetDefined s"
  shows "dragTargetDefined (handleEvent e s)"
proof (cases e)
  case (MouseDown c pt shift)
  with assms show ?thesis by (simp add: onMouseDown_dragTargetDefined)
next
  case (MouseMove c pt)
  with assms show ?thesis by (simp add: onMouseMove_dragTargetDefined)
next
  case (MouseUp c pt shift)
  with assms show ?thesis by (simp add: onMouseUp_dragTargetDefined)
next
  case (MouseLeave pt)
  then show ?thesis by (simp add: onMouseLeave_def dragTargetDefined_effects)
next
  case (PathDataChanged p)
  with assms show ?thesis by (simp add: dragTargetDefined_def)
qed

lemma runEvents_dragTargetDefined:
  "dragTargetDefined s \<Longrightarrow> dragTargetDefined (runEvents es s)"
  by (induction es arbitrary: s) (simp_all add: handleEvent_dragTargetDefined)

lemma onMouseMove_index_defined:
  assumes "dragTargetDefined s"
  shows "fst (onMouseMove c pt s) \<noteq> Threw DraggableSplitIndexUndefined"
proof -
  let ?s = "s\<lparr>lastKnownMouseLocation := Some pt\<rparr>"
  obtain out s1 where t: "checkDragTrigger c pt ?s = (out, s1)"
    by (cases "checkDragTrigger c pt ?s")
  from assms t have i1: "dragTargetDefined s1"
    by (auto simp: checkDragTrigger_def dragTargetDefined_def split: option.splits if_splits)
  show ?thesis
  proof (cases out)
    case (Threw e)
    with t have "e = InitialMouseDownUndefined"
      by (auto simp: checkDragTrigger_def split: option.splits if_splits)
    with Threw t show ?thesis by (simp add: onMouseMove_def andThen_simps)
  next
    case Returned
    show ?thesis
    proof (cases "isDragTriggeredFlag s1")
      case True
      with i1 obtain index where "currentDraggableSplitIndex s1 = Some index"
        by (auto simp: dragTargetDefined_def)
      with True Returned t show ?thesis
        by (simp add: onMouseMove_def andThen_simps)
    next
      case False
      obtain out2 s2 where h: "checkForHovers c pt s1 = (out2, s2)"
        by (cases "checkForHovers c pt s1")
      then have "out2 \<noteq> Threw DraggableSplitIndexUndefined"
        by (auto simp: checkForHovers_def hoverOnShape_def Let_def split: option.splits if_splits)
      with False Returned t h show ?thesis
        by (cases out2) (simp_all add: onMouseMove_def andThen_simps)
    qed
  qed
qed

text \<open>
  Claim C9. In every state that a new helper reaches through any sequence of calls of the
  four handlers, returning or throwing, with any components and any changes of the path
  data in between, \<^verbatim>\<open>isDragTriggered_\<close> implies that \<^verbatim>\<open>currentDraggableSplitIndex\<close> is
  defined. So the read of \<^verbatim>\<open>this.currentDraggableSplitIndex.subIdx\<close> in the drag branch of
  \<^verbatim>\<open>onMouseMove\<close> never throws.
\<close>

theorem drag_flag_implies_drag_target:
  "dragTargetDefined (runEvents events (newHelper p)) \<and>
   fst (onMouseMove c pt (runEvents events (newHelper p))) \<noteq> Threw DraggableSplitIndexUndefined"
proof -
  have "dragTargetDefined (newHelper p)" by (simp add: dragTargetDefined_def newHelper_def)
  then have "dragTargetDefined (runEvents events (newHelper p))"
    by (rule runEvents_dragTargetDefined)
  then show ?thesis by (simp add: onMouseMove_index_defined)
qed

theorem drag_flag_implies_drag_target_witness:
  "isDragTriggeredFlag
     (runEvents [MouseDown (exampleComponent (\<lambda>pt. pointHit 0 2) (\<lambda>r. None)) (Point 0 0) False,
                 MouseMove (exampleComponent (\<lambda>pt. pointHit 0 2) (\<lambda>r. None)) (Point 9 9)]
        (newHelper [(0, 2)])) \<and>
   currentDraggableSplitIndex
     (runEvents [MouseDown (exampleComponent (\<lambda>pt. pointHit 0 2) (\<lambda>r. None)) (Point 0 0) False,
                 MouseMove (exampleComponent (\<lambda>pt. pointHit 0 2) (\<lambda>r. None)) (Point 9 9)]
        (newHelper [(0, 2)])) \<noteq> None \<and>
   fst (onMouseMove (exampleComponent (\<lambda>pt. pointHit 0 2) (\<lambda>r. None)) (Point 12 9)
     (runEvents [MouseDown (exampleComponent (\<lambda>pt. pointHit 0 2) (\<lambda>r. None)) (Point 0 0) False,
                 MouseMove (exampleComponent (\<lambda>pt. pointHit 0 2) (\<lambda>r. None)) (Point 9 9)]
        (newHelper [(0, 2)]))) \<noteq> Threw DraggableSplitIndexUndefined"
proof -
  have flag: "isDragTriggeredFlag
     (runEvents [MouseDown (exampleComponent (\<lambda>pt. pointHit 0 2) (\<lambda>r. None)) (Point 0 0) False,
                 MouseMove (exampleComponent (\<lambda>pt. pointHit 0 2) (\<lambda>r. None)) (Point 9 9)]
        (newHelper [(0, 2)]))"
    by (simp add: onMouseDown_def onMouseMove_def checkDragTrigger_def andThen_def Let_def
        findHitPoint_def cmdInfo_def arrayGet_def calculateProjectionOntoPath_def
        exampleComponent_def pointHit_def newHelper_def draw_def)
  from drag_flag_implies_drag_target
         [of "[MouseDown (exampleComponent (\<lambda>pt. pointHit 0 2) (\<lambda>r. None)) (Point 0 0) False,
               MouseMove (exampleComponent (\<lambda>pt. pointHit 0 2) (\<lambda>r. None)) (Point 9 9)]"
             "[(0, 2)]" "exampleComponent (\<lambda>pt. pointHit 0 2) (\<lambda>r. None)" "Point 12 9"]
       flag
  show ?thesis by (simp add: dragTargetDefined_def)
qed

section \<open>The play loop of the timeline\<close>

lemma emitted_onAnimationFrame_started:
  assumes "startTimestamp pl = Some first" and "first \<noteq> 0"
  shows "onAnimationFrame ts pl =
           (if ts - first < animationDuration
            then \<lparr>startTimestamp = Some first, frameRequested = True,
                  timeline = emitFraction ((ts - first) / animationDuration) (timeline pl)\<rparr>
            else \<lparr>startTimestamp = None, frameRequested = False,
                  timeline = emitFraction 1 (timeline pl)\<rparr>)"
  using assms by (simp add: onAnimationFrame_def Let_def)

lemma runFrames_stopped: "\<not> frameRequested pl \<Longrightarrow> runFrames tss pl = pl"
  by (cases tss) simp_all

lemma runFrames_started:
  assumes "first \<noteq> 0"
  shows "startTimestamp pl = Some first \<Longrightarrow> frameRequested pl \<Longrightarrow>
     animationFractionChangedEmitter (timeline (runFrames tss pl)) =
       animationFractionChangedEmitter (timeline pl)
       @ map (\<lambda>ts. (ts - first) / animationDuration)
           (takeWhile (\<lambda>ts. ts - first < animationDuration) tss)
       @ (if list_all (\<lambda>ts. ts - first < animationDuration) tss then [] else [1]) \<and>
     frameRequested (runFrames tss pl) = list_all (\<lambda>ts. ts - first < animationDuration) tss"
proof (induction tss arbitrary: pl)
  case Nil
  then show ?case by simp
next
  case (Cons ts rest)
  show ?case
  proof (cases "ts - first < animationDuration")
    case True
    let ?pl = "\<lparr>startTimestamp = Some first, frameRequested = True,
                timeline = emitFraction ((ts - first) / animationDuration) (timeline pl)\<rparr>"
    from True Cons.prems assms have step: "onAnimationFrame ts pl = ?pl"
      by (simp add: emitted_onAnimationFrame_started)
    have "startTimestamp ?pl = Some first" "frameRequested ?pl" by simp_all
    from Cons.IH[OF this] True Cons.prems(2) step show ?thesis
      by (simp add: emitFraction_def)
  next
    case False
    let ?pl = "\<lparr>startTimestamp = None, frameRequested = False,
                timeline = emitFraction 1 (timeline pl)\<rparr>"
    from False Cons.prems assms have step: "onAnimationFrame ts pl = ?pl"
      by (simp add: emitted_onAnimationFrame_started)
    have "runFrames rest ?pl = ?pl" by (rule runFrames_stopped) simp
    with False Cons.prems(2) step show ?thesis by (simp add: emitFraction_def)
  qed
qed

lemma fractions_below_one:
  "list_all (\<lambda>v. v < 1)
     (map (\<lambda>ts. (ts - first) / animationDuration)
        (takeWhile (\<lambda>ts. ts - first < animationDuration) tss))"
  by (auto simp: list_all_iff animationDuration_def dest: set_takeWhileD)

text \<open>
  Claim C4. The play loop runs until the duration has elapsed. A frame timestamp is the
  time since the document's time origin, so the first frame after a click on the play
  button has a timestamp that is not 0. For every such run, whatever frames follow, the
  values emitted are those of \<open>elapsedFractions\<close>: for each frame before the duration of
  1000 has elapsed since the first frame, the elapsed time divided by 1000, which is below
  1, and then exactly 1 at the first frame at or after the duration, and nothing after it.
  A frame is still requested after the last frame exactly when no frame has reached the
  duration.
\<close>

theorem play_runs_until_duration_elapsed:
  assumes "first \<noteq> 0"
  shows "animationFractionChangedEmitter (timeline (play (first # rest) tm)) =
           animationFractionChangedEmitter tm @ elapsedFractions (first # rest) \<and>
         frameRequested (play (first # rest) tm) =
           list_all (\<lambda>ts. ts - first < animationDuration) (first # rest) \<and>
         list_all (\<lambda>v. v < 1)
           (map (\<lambda>ts. (ts - first) / animationDuration)
              (takeWhile (\<lambda>ts. ts - first < animationDuration) (first # rest))) \<and>
         animationDuration = 1000"
proof -
  let ?pl = "\<lparr>startTimestamp = Some first, frameRequested = True,
              timeline = emitFraction 0 tm\<rparr>"
  have step: "onAnimationFrame first (onPlayClick tm) = ?pl"
    by (simp add: onAnimationFrame_def onPlayClick_def Let_def animationDuration_def)
  have started: "startTimestamp ?pl = Some first" "frameRequested ?pl" by simp_all
  have run: "animationFractionChangedEmitter (timeline (play (first # rest) tm)) =
           animationFractionChangedEmitter tm @ elapsedFractions (first # rest) \<and>
         frameRequested (play (first # rest) tm) =
           list_all (\<lambda>ts. ts - first < animationDuration) (first # rest)"
    using runFrames_started[OF assms started, of rest] step
    by (simp add: play_def onPlayClick_def elapsedFractions_def emitFraction_def
        animationDuration_def)
  have below: "list_all (\<lambda>v. v < 1)
           (map (\<lambda>ts. (ts - first) / animationDuration)
              (takeWhile (\<lambda>ts. ts - first < animationDuration) (first # rest)))"
    by (rule fractions_below_one)
  from run below show ?thesis by (simp add: animationDuration_def)
qed

theorem play_runs_until_duration_elapsed_witness:
  "animationFractionChangedEmitter
     (timeline (play [100, 600, 1300, 1400]
        \<lparr>labelPointsChangedEmitter = [], animationFractionChangedEmitter = []\<rparr>))
     = [0, 1 / 2, 1] \<and>
   \<not> frameRequested (play [100, 600, 1300, 1400]
        \<lparr>labelPointsChangedEmitter = [], animationFractionChangedEmitter = []\<rparr>) \<and>
   animationFractionChangedEmitter
     (timeline (play [100, 600]
        \<lparr>labelPointsChangedEmitter = [], animationFractionChangedEmitter = []\<rparr>))
     = [0, 1 / 2] \<and>
   frameRequested (play [100, 600]
        \<lparr>labelPointsChangedEmitter = [], animationFractionChangedEmitter = []\<rparr>)"
proof -
  let ?tm = "\<lparr>labelPointsChangedEmitter = [], animationFractionChangedEmitter = []\<rparr>"
  have nonzero: "(100::real) \<noteq> 0" by simp
  note long = play_runs_until_duration_elapsed[OF nonzero, of "[600, 1300, 1400]" ?tm]
  note short = play_runs_until_duration_elapsed[OF nonzero, of "[600]" ?tm]
  have fractionsLong: "elapsedFractions [100, 600, 1300, 1400] = [0, 1 / 2, 1]"
    by (simp add: elapsedFractions_def animationDuration_def)
  have fractionsShort: "elapsedFractions [100, 600] = [0, 1 / 2]"
    by (simp add: elapsedFractions_def animationDuration_def)
  have reached: "\<not> list_all (\<lambda>ts. ts - 100 < animationDuration) [100, 600, 1300, 1400]"
    by (simp add: animationDuration_def)
  have notReached: "list_all (\<lambda>ts. ts - 100 < animationDuration) [100, 600]"
    by (simp add: animationDuration_def)
  from long have "animationFractionChangedEmitter (timeline (play [100, 600, 1300, 1400] ?tm))
      = animationFractionChangedEmitter ?tm @ elapsedFractions [100, 600, 1300, 1400]"
    by (rule conjunct1)
  then have e1: "animationFractionChangedEmitter (timeline (play [100, 600, 1300, 1400] ?tm))
      = [0, 1 / 2, 1]"
    by (simp only: fractionsLong) simp
  from long have "frameRequested (play [100, 600, 1300, 1400] ?tm) =
           list_all (\<lambda>ts. ts - 100 < animationDuration) [100, 600, 1300, 1400]"
    by blast
  with reached have r1: "\<not> frameRequested (play [100, 600, 1300, 1400] ?tm)" by blast
  from short have "animationFractionChangedEmitter (timeline (play [100, 600] ?tm))
      = animationFractionChangedEmitter ?tm @ elapsedFractions [100, 600]"
    by (rule conjunct1)
  then have e2: "animationFractionChangedEmitter (timeline (play [100, 600] ?tm)) = [0, 1 / 2]"
    by (simp only: fractionsShort) simp
  from short have "frameRequested (play [100, 600] ?tm) =
           list_all (\<lambda>ts. ts - 100 < animationDuration) [100, 600]"
    by blast
  with notReached have r2: "frameRequested (play [100, 600] ?tm)" by blast
  from e1 r1 e2 r2 show ?thesis by blast
qed

text \<open>
  The condition on the first timestamp is needed. \<^verbatim>\<open>!startTimestamp\<close> holds for the
  number 0 as it does for \<^verbatim>\<open>null\<close>, so a run whose first frame had the timestamp 0 would
  take its start anew at the second frame: frames at 0, 500 and 1200 would emit 0, 0 and
  7/10 and leave a frame requested.
\<close>

lemma play_first_timestamp_zero:
  "animationFractionChangedEmitter
     (timeline (play [0, 500, 1200]
        \<lparr>labelPointsChangedEmitter = [], animationFractionChangedEmitter = []\<rparr>))
     = [0, 0, 7 / 10] \<and>
   frameRequested (play [0, 500, 1200]
        \<lparr>labelPointsChangedEmitter = [], animationFractionChangedEmitter = []\<rparr>) \<and>
   elapsedFractions [0, 500, 1200] = [0, 1 / 2, 1]"
  by (simp add: play_def onPlayClick_def onAnimationFrame_def emitFraction_def
      elapsedFractions_def animationDuration_def Let_def)

end
